theory Spec2Isabelle
  imports Complex_Main
begin

section \<open>The layer library that resnet.py composes\<close>

text \<open>
  \<^verbatim>\<open>detection/models/backbones/resnet.py\<close> builds its two classes from the layers of
  \<^verbatim>\<open>tf.keras.layers\<close> and from \<^verbatim>\<open>tf.nn.relu\<close>. The library is not part of the
  repository. What it does to the numbers of a tensor is taken as a parameter (the record
  \<open>framework\<close> below); what it does to the shape of a tensor is written out, since the
  shape rules of the layers are fixed by their configuration.

  A tensor is its shape (the list of its dimensions) and its contents, of an arbitrary
  type \<open>'v\<close>. The running statistics of a normalization layer (moving mean and
  variance) are of an arbitrary type \<open>'s\<close>.
\<close>

datatype error = ValueError | InvalidArgument | AttributeError | IndexError | ZeroDivisionError

datatype padding = Valid | Same

record 'v Tensor =
  shape :: "nat list"
  val :: 'v

record Conv2D =
  filters :: nat
  kernel_size :: "nat \<times> nat"
  strides :: "nat \<times> nat"
  padding :: padding
  kernel_initializer :: string
  conv_name :: string

record 's BatchNormalization =
  bn_name :: string
  moving :: 's

record MaxPooling2D =
  pool_size :: "nat \<times> nat"
  pool_strides :: "nat \<times> nat"
  pool_padding :: padding

text \<open>
  The numeric side of the library. \<open>batchnorm_moving\<close> gives the running statistics
  a normalization layer holds after one call in training mode. \<open>learning_phase\<close> is the
  ambient Keras learning phase, which a normalization layer reads when it is called
  without a \<^verbatim>\<open>training\<close> argument.
\<close>

record ('v, 's) framework =
  conv2d_val :: "Conv2D \<Rightarrow> 'v Tensor \<Rightarrow> 'v"
  batchnorm_val :: "'s BatchNormalization \<Rightarrow> bool \<Rightarrow> 'v Tensor \<Rightarrow> 'v"
  batchnorm_moving :: "'s BatchNormalization \<Rightarrow> 'v Tensor \<Rightarrow> 's"
  max_pool_val :: "MaxPooling2D \<Rightarrow> 'v Tensor \<Rightarrow> 'v"
  relu_val :: "'v Tensor \<Rightarrow> 'v"
  add_val :: "'v Tensor \<Rightarrow> 'v Tensor \<Rightarrow> 'v"
  learning_phase :: bool

definition bindE :: "error + 'a \<Rightarrow> ('a \<Rightarrow> error + 'b) \<Rightarrow> error + 'b" where
  "bindE m f = (case m of Inl e \<Rightarrow> Inl e | Inr a \<Rightarrow> f a)"

text \<open>
  Length of one spatial axis after a convolution or a pooling window of size \<open>k\<close> moved
  by \<open>s\<close>: with \<^verbatim>\<open>'same'\<close> padding the ceiling of \<open>n / s\<close>; with \<^verbatim>\<open>'valid'\<close> padding
  (the default) \<open>(n - k) div s + 1\<close>, and an input shorter than the window is refused.
  A stride of zero is refused.
\<close>

definition conv_output_length :: "nat \<Rightarrow> nat \<Rightarrow> padding \<Rightarrow> nat \<Rightarrow> error + nat" where
  "conv_output_length n k p s =
     (if s = 0 then Inl InvalidArgument
      else case p of
        Same \<Rightarrow> Inr ((n + s - 1) div s)
      | Valid \<Rightarrow> (if n < k then Inl InvalidArgument else Inr ((n - k + s) div s)))"

definition Conv2D_call :: "('v, 's) framework \<Rightarrow> Conv2D \<Rightarrow> 'v Tensor \<Rightarrow> error + 'v Tensor" where
  "Conv2D_call fw layer x =
     (case shape x of
        [n, h, w, c] \<Rightarrow>
          bindE (conv_output_length h (fst (kernel_size layer)) (padding layer) (fst (strides layer)))
            (\<lambda>h'. bindE (conv_output_length w (snd (kernel_size layer)) (padding layer) (snd (strides layer)))
              (\<lambda>w'. Inr \<lparr>shape = [n, h', w', filters layer], val = conv2d_val fw layer x\<rparr>))
      | _ \<Rightarrow> Inl ValueError)"

definition MaxPooling2D_call ::
  "('v, 's) framework \<Rightarrow> MaxPooling2D \<Rightarrow> 'v Tensor \<Rightarrow> error + 'v Tensor" where
  "MaxPooling2D_call fw layer x =
     (case shape x of
        [n, h, w, c] \<Rightarrow>
          bindE (conv_output_length h (fst (pool_size layer)) (pool_padding layer) (fst (pool_strides layer)))
            (\<lambda>h'. bindE (conv_output_length w (snd (pool_size layer)) (pool_padding layer) (snd (pool_strides layer)))
              (\<lambda>w'. Inr \<lparr>shape = [n, h', w', c], val = max_pool_val fw layer x\<rparr>))
      | _ \<Rightarrow> Inl ValueError)"

text \<open>
  A normalization layer keeps the shape. Called with \<^verbatim>\<open>training=True\<close> it normalizes
  with the statistics of the batch and updates its running statistics; called with
  \<^verbatim>\<open>training=False\<close> it normalizes with its running statistics and leaves them as
  they are; called without the argument (\<open>None\<close>) it takes the mode from the
  learning phase.
\<close>

definition BatchNormalization_call ::
  "('v, 's) framework \<Rightarrow> 's BatchNormalization \<Rightarrow> 'v Tensor \<Rightarrow> bool option
     \<Rightarrow> 'v Tensor \<times> 's BatchNormalization" where
  "BatchNormalization_call fw layer x training_arg =
     (let training = (case training_arg of None \<Rightarrow> learning_phase fw | Some t \<Rightarrow> t)
      in (\<lparr>shape = shape x, val = batchnorm_val fw layer training x\<rparr>,
          if training then layer\<lparr>moving := batchnorm_moving fw layer x\<rparr> else layer))"

definition relu :: "('v, 's) framework \<Rightarrow> 'v Tensor \<Rightarrow> 'v Tensor" where
  "relu fw x = \<lparr>shape = shape x, val = relu_val fw x\<rparr>"

text \<open>
  Addition broadcasts: the shapes are aligned at their last axis, and two dimensions are
  compatible when they are equal or one of them is 1.
\<close>

fun broadcast_rev :: "nat list \<Rightarrow> nat list \<Rightarrow> error + nat list" where
  "broadcast_rev [] ys = Inr ys"
| "broadcast_rev xs [] = Inr xs"
| "broadcast_rev (a # xs) (b # ys) =
     (if a = b \<or> b = 1 then bindE (broadcast_rev xs ys) (\<lambda>zs. Inr (a # zs))
      else if a = 1 then bindE (broadcast_rev xs ys) (\<lambda>zs. Inr (b # zs))
      else Inl InvalidArgument)"

definition broadcast_shape :: "nat list \<Rightarrow> nat list \<Rightarrow> error + nat list" where
  "broadcast_shape xs ys = bindE (broadcast_rev (rev xs) (rev ys)) (\<lambda>zs. Inr (rev zs))"

definition add :: "('v, 's) framework \<Rightarrow> 'v Tensor \<Rightarrow> 'v Tensor \<Rightarrow> error + 'v Tensor" where
  "add fw x y =
     bindE (broadcast_shape (shape x) (shape y))
       (\<lambda>zs. Inr \<lparr>shape = zs, val = add_val fw x y\<rparr>)"

section \<open>The bottleneck unit\<close>

text \<open>
  \<^verbatim>\<open>_Bottleneck.__init__(self, filters, block, downsampling=False, stride=1)\<close>.
  \<open>filters_arg\<close> is the sequence the constructor unpacks into three counts, here a
  triple.
  The running statistics the framework gives to (or a checkpoint loads into) the
  normalization layer of a given name are the parameter \<open>st\<close>. The projection pair
  exists only when \<^verbatim>\<open>downsampling\<close> is set.
\<close>

record 's Bottleneck =
  downsampling :: bool
  stride :: nat
  out_channel :: nat
  conv2a :: Conv2D
  bn2a :: "'s BatchNormalization"
  conv2b :: Conv2D
  bn2b :: "'s BatchNormalization"
  conv2c :: Conv2D
  bn2c :: "'s BatchNormalization"
  conv_shortcut :: "Conv2D option"
  bn_shortcut :: "'s BatchNormalization option"

definition Conv2D_init :: "nat \<Rightarrow> nat \<times> nat \<Rightarrow> nat \<times> nat \<Rightarrow> padding \<Rightarrow> string \<Rightarrow> Conv2D" where
  "Conv2D_init f k s p nm =
     \<lparr>filters = f, kernel_size = k, strides = s, padding = p,
      kernel_initializer = ''he_normal'', conv_name = nm\<rparr>"

definition BatchNormalization_init :: "(string \<Rightarrow> 's) \<Rightarrow> string \<Rightarrow> 's BatchNormalization" where
  "BatchNormalization_init st nm = \<lparr>bn_name = nm, moving = st nm\<rparr>"

definition Bottleneck_init ::
  "(string \<Rightarrow> 's) \<Rightarrow> nat \<times> nat \<times> nat \<Rightarrow> string \<Rightarrow> bool \<Rightarrow> nat \<Rightarrow> 's Bottleneck" where
  "Bottleneck_init st filters_arg block downsampling_arg stride_arg =
     (case filters_arg of (filters1, filters2, filters3) \<Rightarrow>
        let conv_name_base = ''res'' @ block @ ''_branch'';
            bn_name_base = ''bn'' @ block @ ''_branch''
        in \<lparr>downsampling = downsampling_arg,
            stride = stride_arg,
            out_channel = filters3,
            conv2a = Conv2D_init filters1 (1, 1) (stride_arg, stride_arg) Valid (conv_name_base @ ''2a''),
            bn2a = BatchNormalization_init st (bn_name_base @ ''2a''),
            conv2b = Conv2D_init filters2 (3, 3) (1, 1) Same (conv_name_base @ ''2b''),
            bn2b = BatchNormalization_init st (bn_name_base @ ''2b''),
            conv2c = Conv2D_init filters3 (1, 1) (1, 1) Valid (conv_name_base @ ''2c''),
            bn2c = BatchNormalization_init st (bn_name_base @ ''2c''),
            conv_shortcut =
              (if downsampling_arg
               then Some (Conv2D_init filters3 (1, 1) (stride_arg, stride_arg) Valid (conv_name_base @ ''1''))
               else None),
            bn_shortcut =
              (if downsampling_arg
               then Some (BatchNormalization_init st (bn_name_base @ ''1''))
               else None)\<rparr>)"

text \<open>
  \<^verbatim>\<open>_Bottleneck.__call__(self, inputs, training=False)\<close>. Lines 46 to 55 of the source
  (the three convolution and normalization pairs) are \<open>Bottleneck_main\<close>, lines 57 to 61
  (the shortcut) are \<open>Bottleneck_shortcut\<close>, lines 63 to 66 are the rest of
  \<open>Bottleneck_call\<close>. Each returns the unit with the normalization layers as the call
  left them. A call that raises returns the error alone: the statistics that layers
  called before the raise have updated are not part of the result.
\<close>

definition Bottleneck_main ::
  "('v, 's) framework \<Rightarrow> 's Bottleneck \<Rightarrow> 'v Tensor \<Rightarrow> bool
     \<Rightarrow> error + ('v Tensor \<times> 's Bottleneck)" where
  "Bottleneck_main fw self inputs training =
     bindE (Conv2D_call fw (conv2a self) inputs) (\<lambda>x.
       case BatchNormalization_call fw (bn2a self) x (Some training) of (x, bn2a') \<Rightarrow>
       let x = relu fw x in
       bindE (Conv2D_call fw (conv2b self) x) (\<lambda>x.
         case BatchNormalization_call fw (bn2b self) x (Some training) of (x, bn2b') \<Rightarrow>
         let x = relu fw x in
         bindE (Conv2D_call fw (conv2c self) x) (\<lambda>x.
           case BatchNormalization_call fw (bn2c self) x (Some training) of (x, bn2c') \<Rightarrow>
           Inr (x, self\<lparr>bn2a := bn2a', bn2b := bn2b', bn2c := bn2c'\<rparr>))))"

definition Bottleneck_shortcut ::
  "('v, 's) framework \<Rightarrow> 's Bottleneck \<Rightarrow> 'v Tensor \<Rightarrow> bool
     \<Rightarrow> error + ('v Tensor \<times> 's Bottleneck)" where
  "Bottleneck_shortcut fw self inputs training =
     (if downsampling self then
        (case (conv_shortcut self, bn_shortcut self) of
           (Some conv, Some bn) \<Rightarrow>
             bindE (Conv2D_call fw conv inputs) (\<lambda>shortcut.
               case BatchNormalization_call fw bn shortcut (Some training) of (shortcut, bn') \<Rightarrow>
               Inr (shortcut, self\<lparr>bn_shortcut := Some bn'\<rparr>))
         | _ \<Rightarrow> Inl AttributeError)
      else Inr (inputs, self))"

definition Bottleneck_call ::
  "('v, 's) framework \<Rightarrow> 's Bottleneck \<Rightarrow> 'v Tensor \<Rightarrow> bool option
     \<Rightarrow> error + ('v Tensor \<times> 's Bottleneck)" where
  "Bottleneck_call fw self inputs training_arg =
     (let training = (case training_arg of None \<Rightarrow> False | Some t \<Rightarrow> t) in
      bindE (Bottleneck_main fw self inputs training) (\<lambda>(x, self).
        bindE (Bottleneck_shortcut fw self inputs training) (\<lambda>(shortcut, self).
          bindE (add fw x shortcut) (\<lambda>x.
            let x = relu fw x in
            Inr (x, self)))))"

text \<open>
  \<^verbatim>\<open>_Bottleneck.compute_output_shape(self, input_shape)\<close>: the shape as a list, element 1
  and element 2 floor-divided by the stride, the last element replaced. Reading
  \<^verbatim>\<open>shape[1]\<close> or \<^verbatim>\<open>shape[2]\<close> of a shorter list raises IndexError, dividing by a
  zero stride raises ZeroDivisionError.
\<close>

definition Bottleneck_compute_output_shape :: "'s Bottleneck \<Rightarrow> nat list \<Rightarrow> error + nat list" where
  "Bottleneck_compute_output_shape self input_shape =
     (let shp = input_shape in
      if length shp < 2 then Inl IndexError
      else if stride self = 0 then Inl ZeroDivisionError
      else let shp = shp[1 := shp ! 1 div stride self] in
      if length shp < 3 then Inl IndexError
      else let shp = shp[2 := shp ! 2 div stride self];
               shp = shp[length shp - 1 := out_channel self]
      in Inr shp)"

section \<open>The backbone\<close>

record 's ResNet50 =
  conv1 :: Conv2D
  bn_conv1 :: "'s BatchNormalization"
  max_pool :: MaxPooling2D
  res2a :: "'s Bottleneck"
  res2b :: "'s Bottleneck"
  res2c :: "'s Bottleneck"
  res3a :: "'s Bottleneck"
  res3b :: "'s Bottleneck"
  res3c :: "'s Bottleneck"
  res3d :: "'s Bottleneck"
  res4a :: "'s Bottleneck"
  res4b :: "'s Bottleneck"
  res4c :: "'s Bottleneck"
  res4d :: "'s Bottleneck"
  res4e :: "'s Bottleneck"
  res4f :: "'s Bottleneck"
  res5a :: "'s Bottleneck"
  res5b :: "'s Bottleneck"
  res5c :: "'s Bottleneck"
  out_channels :: "nat \<times> nat \<times> nat \<times> nat"

text \<open>
  \<^verbatim>\<open>ResNet50.__init__\<close>. A unit created without \<^verbatim>\<open>downsampling\<close> and \<^verbatim>\<open>stride\<close>
  gets the defaults \<^verbatim>\<open>False\<close> and \<^verbatim>\<open>1\<close> of \<^verbatim>\<open>_Bottleneck.__init__\<close>. The field
  \<^verbatim>\<open>self.out_channel\<close> of the source is \<open>out_channels\<close> here.
\<close>

definition ResNet50_init :: "(string \<Rightarrow> 's) \<Rightarrow> 's ResNet50" where
  "ResNet50_init st =
     \<lparr>conv1 = Conv2D_init 64 (7, 7) (2, 2) Same ''conv1'',
      bn_conv1 = BatchNormalization_init st ''bn_conv1'',
      max_pool = \<lparr>pool_size = (3, 3), pool_strides = (2, 2), pool_padding = Same\<rparr>,
      res2a = Bottleneck_init st (64, 64, 256) ''2a'' True 1,
      res2b = Bottleneck_init st (64, 64, 256) ''2b'' False 1,
      res2c = Bottleneck_init st (64, 64, 256) ''2c'' False 1,
      res3a = Bottleneck_init st (128, 128, 512) ''3a'' True 2,
      res3b = Bottleneck_init st (128, 128, 512) ''3b'' False 1,
      res3c = Bottleneck_init st (128, 128, 512) ''3c'' False 1,
      res3d = Bottleneck_init st (128, 128, 512) ''3d'' False 1,
      res4a = Bottleneck_init st (256, 256, 1024) ''4a'' True 2,
      res4b = Bottleneck_init st (256, 256, 1024) ''4b'' False 1,
      res4c = Bottleneck_init st (256, 256, 1024) ''4c'' False 1,
      res4d = Bottleneck_init st (256, 256, 1024) ''4d'' False 1,
      res4e = Bottleneck_init st (256, 256, 1024) ''4e'' False 1,
      res4f = Bottleneck_init st (256, 256, 1024) ''4f'' False 1,
      res5a = Bottleneck_init st (512, 512, 2048) ''5a'' True 2,
      res5b = Bottleneck_init st (512, 512, 2048) ''5b'' False 1,
      res5c = Bottleneck_init st (512, 512, 2048) ''5c'' False 1,
      out_channels = (256, 512, 1024, 2048)\<rparr>"

text \<open>
  \<^verbatim>\<open>ResNet50.__call__(self, inputs, training=True)\<close>. Line 118 calls the stem's
  normalization layer without a \<^verbatim>\<open>training\<close> argument; every unit is called with
  \<^verbatim>\<open>training=training\<close>.
\<close>

definition ResNet50_call ::
  "('v, 's) framework \<Rightarrow> 's ResNet50 \<Rightarrow> 'v Tensor \<Rightarrow> bool option
     \<Rightarrow> error + (('v Tensor \<times> 'v Tensor \<times> 'v Tensor \<times> 'v Tensor) \<times> 's ResNet50)" where
  "ResNet50_call fw self inputs training_arg =
     (let training = (case training_arg of None \<Rightarrow> True | Some t \<Rightarrow> t) in
      bindE (Conv2D_call fw (conv1 self) inputs) (\<lambda>x.
      case BatchNormalization_call fw (bn_conv1 self) x None of (x, bn_conv1') \<Rightarrow>
      let x = relu fw x in
      bindE (MaxPooling2D_call fw (max_pool self) x) (\<lambda>x.
      bindE (Bottleneck_call fw (res2a self) x (Some training)) (\<lambda>(x, res2a').
      bindE (Bottleneck_call fw (res2b self) x (Some training)) (\<lambda>(x, res2b').
      bindE (Bottleneck_call fw (res2c self) x (Some training)) (\<lambda>(x, res2c').
      let C2 = x in
      bindE (Bottleneck_call fw (res3a self) x (Some training)) (\<lambda>(x, res3a').
      bindE (Bottleneck_call fw (res3b self) x (Some training)) (\<lambda>(x, res3b').
      bindE (Bottleneck_call fw (res3c self) x (Some training)) (\<lambda>(x, res3c').
      bindE (Bottleneck_call fw (res3d self) x (Some training)) (\<lambda>(x, res3d').
      let C3 = x in
      bindE (Bottleneck_call fw (res4a self) x (Some training)) (\<lambda>(x, res4a').
      bindE (Bottleneck_call fw (res4b self) x (Some training)) (\<lambda>(x, res4b').
      bindE (Bottleneck_call fw (res4c self) x (Some training)) (\<lambda>(x, res4c').
      bindE (Bottleneck_call fw (res4d self) x (Some training)) (\<lambda>(x, res4d').
      bindE (Bottleneck_call fw (res4e self) x (Some training)) (\<lambda>(x, res4e').
      bindE (Bottleneck_call fw (res4f self) x (Some training)) (\<lambda>(x, res4f').
      let C4 = x in
      bindE (Bottleneck_call fw (res5a self) x (Some training)) (\<lambda>(x, res5a').
      bindE (Bottleneck_call fw (res5b self) x (Some training)) (\<lambda>(x, res5b').
      bindE (Bottleneck_call fw (res5c self) x (Some training)) (\<lambda>(x, res5c').
      let C5 = x in
      Inr ((C2, C3, C4, C5),
           self\<lparr>bn_conv1 := bn_conv1',
                res2a := res2a', res2b := res2b', res2c := res2c',
                res3a := res3a', res3b := res3b', res3c := res3c', res3d := res3d',
                res4a := res4a', res4b := res4b', res4c := res4c', res4d := res4d',
                res4e := res4e', res4f := res4f',
                res5a := res5a', res5b := res5b', res5c := res5c'\<rparr>))))))))))))))))))))"

text \<open>
  \<^verbatim>\<open>ResNet50.compute_output_shape(self, input_shape)\<close>: unpacking a list that has not
  exactly four elements raises ValueError.
\<close>

definition ResNet50_compute_output_shape ::
  "'s ResNet50 \<Rightarrow> nat list \<Rightarrow> error + (nat list \<times> nat list \<times> nat list \<times> nat list)" where
  "ResNet50_compute_output_shape self input_shape =
     (case input_shape of
        [batch, H, W, C] \<Rightarrow>
          (case out_channels self of (oc0, oc1, oc2, oc3) \<Rightarrow>
             let C2_shape = [batch, H div 4, W div 4, oc0];
                 C3_shape = [batch, H div 8, W div 8, oc1];
                 C4_shape = [batch, H div 16, W div 16, oc2];
                 C5_shape = [batch, H div 32, W div 32, oc3]
             in Inr (C2_shape, C3_shape, C4_shape, C5_shape))
      | _ \<Rightarrow> Inl ValueError)"

section \<open>Observations of a call\<close>

text \<open>
  The shapes of what a call returns, as the entry point of the source prints them
  (\<^verbatim>\<open>C2.shape.as_list()\<close> and so on); an error of the call stays an error.
\<close>

definition Bottleneck_output_shape ::
  "('v, 's) framework \<Rightarrow> 's Bottleneck \<Rightarrow> 'v Tensor \<Rightarrow> bool option \<Rightarrow> error + nat list" where
  "Bottleneck_output_shape fw self inputs training_arg =
     (case Bottleneck_call fw self inputs training_arg of
        Inl e \<Rightarrow> Inl e
      | Inr (x, self') \<Rightarrow> Inr (shape x))"

definition ResNet50_output_shapes ::
  "('v, 's) framework \<Rightarrow> 's ResNet50 \<Rightarrow> 'v Tensor \<Rightarrow> bool option
     \<Rightarrow> error + (nat list \<times> nat list \<times> nat list \<times> nat list)" where
  "ResNet50_output_shapes fw self inputs training_arg =
     (case ResNet50_call fw self inputs training_arg of
        Inl e \<Rightarrow> Inl e
      | Inr ((C2, C3, C4, C5), self') \<Rightarrow> Inr (shape C2, shape C3, shape C4, shape C5))"

text \<open>The ceiling of \<open>n / s\<close> on natural numbers.\<close>

definition ceil_div :: "nat \<Rightarrow> nat \<Rightarrow> nat" where
  "ceil_div n s = (n + s - 1) div s"

text \<open>
  The sixteen units of the backbone in the order of their creation, and the names of the
  layers of a unit: the three pairs of the main path, then the projection pair when the
  unit has one.
\<close>

definition ResNet50_units :: "'s ResNet50 \<Rightarrow> 's Bottleneck list" where
  "ResNet50_units self =
     [res2a self, res2b self, res2c self,
      res3a self, res3b self, res3c self, res3d self,
      res4a self, res4b self, res4c self, res4d self, res4e self, res4f self,
      res5a self, res5b self, res5c self]"

definition Bottleneck_layer_names :: "'s Bottleneck \<Rightarrow> (string \<times> string) list" where
  "Bottleneck_layer_names self =
     [(conv_name (conv2a self), bn_name (bn2a self)),
      (conv_name (conv2b self), bn_name (bn2b self)),
      (conv_name (conv2c self), bn_name (bn2c self))] @
     (case (conv_shortcut self, bn_shortcut self) of
        (Some conv, Some bn) \<Rightarrow> [(conv_name conv, bn_name bn)]
      | _ \<Rightarrow> [])"

text \<open>
  The naming scheme in the words of the specification: for the block identifier \<open>b\<close>
  the pairs \<open>res b _branch2a / bn b _branch2a\<close>, likewise \<open>2b\<close> and \<open>2c\<close>, and the
  projection pair \<open>res b _branch1 / bn b _branch1\<close> when the unit has a projection.
\<close>

definition spec_layer_names :: "string \<Rightarrow> bool \<Rightarrow> (string \<times> string) list" where
  "spec_layer_names b projection =
     [(''res'' @ b @ ''_branch2a'', ''bn'' @ b @ ''_branch2a''),
      (''res'' @ b @ ''_branch2b'', ''bn'' @ b @ ''_branch2b''),
      (''res'' @ b @ ''_branch2c'', ''bn'' @ b @ ''_branch2c'')] @
     (if projection then [(''res'' @ b @ ''_branch1'', ''bn'' @ b @ ''_branch1'')] else [])"

section \<open>The bottleneck unit in the words of the specification\<close>

text \<open>
  The specification describes the unit as a composition of layers on tensors, without
  the running statistics: main path, shortcut path, and the activation of their sum.
  \<open>normalization\<close> is the tensor a normalization layer returns in the given mode.
\<close>

definition normalization ::
  "('v, 's) framework \<Rightarrow> 's BatchNormalization \<Rightarrow> bool \<Rightarrow> 'v Tensor \<Rightarrow> 'v Tensor" where
  "normalization fw layer training x = fst (BatchNormalization_call fw layer x (Some training))"

definition spec_main_path ::
  "('v, 's) framework \<Rightarrow> 's Bottleneck \<Rightarrow> bool \<Rightarrow> 'v Tensor \<Rightarrow> error + 'v Tensor" where
  "spec_main_path fw u training x =
     bindE (Conv2D_call fw (conv2a u) x) (\<lambda>a.
     bindE (Conv2D_call fw (conv2b u) (relu fw (normalization fw (bn2a u) training a))) (\<lambda>b.
     bindE (Conv2D_call fw (conv2c u) (relu fw (normalization fw (bn2b u) training b))) (\<lambda>c.
     Inr (normalization fw (bn2c u) training c))))"

definition spec_shortcut_path ::
  "('v, 's) framework \<Rightarrow> 's Bottleneck \<Rightarrow> bool \<Rightarrow> 'v Tensor \<Rightarrow> error + 'v Tensor" where
  "spec_shortcut_path fw u training x =
     (case (conv_shortcut u, bn_shortcut u) of
        (Some conv, Some bn) \<Rightarrow>
          bindE (Conv2D_call fw conv x) (\<lambda>p. Inr (normalization fw bn training p))
      | _ \<Rightarrow> Inr x)"

definition spec_bottleneck ::
  "('v, 's) framework \<Rightarrow> 's Bottleneck \<Rightarrow> bool \<Rightarrow> 'v Tensor \<Rightarrow> error + 'v Tensor" where
  "spec_bottleneck fw u training x =
     bindE (spec_main_path fw u training x) (\<lambda>m.
     bindE (spec_shortcut_path fw u training x) (\<lambda>p.
     bindE (add fw m p) (\<lambda>z. Inr (relu fw z))))"

text \<open>
  The running statistics of the normalization layers of a unit (main path, then the
  projection when there is one), and those of the whole backbone after a call: the
  stem's, and the set of those found in the sixteen units.
\<close>

definition Bottleneck_moving :: "'s Bottleneck \<Rightarrow> 's list" where
  "Bottleneck_moving self =
     [moving (bn2a self), moving (bn2b self), moving (bn2c self)] @
     (case bn_shortcut self of Some bn \<Rightarrow> [moving bn] | None \<Rightarrow> [])"

definition ResNet50_moving_after ::
  "('v, 's) framework \<Rightarrow> 's ResNet50 \<Rightarrow> 'v Tensor \<Rightarrow> bool option \<Rightarrow> error + ('s \<times> 's set)" where
  "ResNet50_moving_after fw self inputs training_arg =
     (case ResNet50_call fw self inputs training_arg of
        Inl e \<Rightarrow> Inl e
      | Inr (ys, self') \<Rightarrow>
          Inr (moving (bn_conv1 self'),
               set (concat (map Bottleneck_moving (ResNet50_units self')))))"

section \<open>A framework for concrete runs\<close>

text \<open>
  For runs on concrete inputs: tensors without contents, and running statistics that
  count the updates of their layer. The learning phase is off, as it is in Keras unless
  a caller sets it.
\<close>

definition counting_framework :: "(unit, nat) framework" where
  "counting_framework =
     \<lparr>conv2d_val = (\<lambda>layer x. ()),
      batchnorm_val = (\<lambda>layer training x. ()),
      batchnorm_moving = (\<lambda>layer x. Suc (moving layer)),
      max_pool_val = (\<lambda>layer x. ()),
      relu_val = (\<lambda>x. ()),
      add_val = (\<lambda>x y. ()),
      learning_phase = False\<rparr>"

definition zero_stats :: "string \<Rightarrow> nat" where
  "zero_stats nm = 0"

definition tensor_of_shape :: "nat list \<Rightarrow> unit Tensor" where
  "tensor_of_shape dims = \<lparr>shape = dims, val = ()\<rparr>"

section \<open>Properties\<close>

subsection \<open>Auxiliary facts\<close>

lemma bindE_Inr [simp]: "bindE (Inr a) f = f a"
  by (simp add: bindE_def)

lemma bindE_Inl [simp]: "bindE (Inl e) f = Inl e"
  by (simp add: bindE_def)

lemma ceil_div_Suc: "0 < s \<Longrightarrow> ceil_div (Suc m) s = Suc (m div s)"
  by (simp add: ceil_div_def)

lemma ceil_div_Suc_pred: "0 < s \<Longrightarrow> 0 < n \<Longrightarrow> ceil_div n s = Suc ((n - 1) div s)"
  by (cases n) (simp_all add: ceil_div_Suc)

lemma ceil_div_zero [simp]: "0 < s \<Longrightarrow> ceil_div 0 s = 0"
  by (simp add: ceil_div_def)

lemma ceil_div_one [simp]: "ceil_div n (Suc 0) = n"
  by (simp add: ceil_div_def)

lemma ceil_div_pos: "0 < n \<Longrightarrow> 0 < s \<Longrightarrow> 0 < ceil_div n s"
  by (simp add: ceil_div_Suc_pred)

lemma ceil_div_ceil_div:
  assumes "0 < a" "0 < b"
  shows "ceil_div (ceil_div n a) b = ceil_div n (a * b)"
proof (cases "n = 0")
  case True
  then show ?thesis using assms by simp
next
  case False
  then show ?thesis using assms
    by (simp add: ceil_div_Suc_pred div_mult2_eq)
qed

lemma ceil_div_cases:
  assumes "0 < s"
  shows "ceil_div n s = (if s dvd n then n div s else Suc (n div s))"
proof (cases "n mod s = 0")
  case True
  have n: "s * (n div s) + n mod s = n" by (rule mult_div_mod_eq)
  have "s * (n div s) \<le> n + s - 1" using n True assms by arith
  moreover have "n + s - 1 < s * (n div s) + s" using n True assms by arith
  ultimately have "(n + s - 1) div s = n div s"
    by (intro div_nat_eqI) simp_all
  then show ?thesis using True by (simp add: ceil_div_def dvd_eq_mod_eq_0)
next
  case False
  have n: "s * (n div s) + n mod s = n" by (rule mult_div_mod_eq)
  have r: "n mod s < s" using assms by simp
  have "s * (n div s) + s \<le> n + s - 1" using n False by arith
  moreover have "n + s - 1 < s * (n div s) + s + s" using n r by arith
  ultimately have "(n + s - 1) div s = Suc (n div s)"
    by (intro div_nat_eqI) simp_all
  then show ?thesis using False by (simp add: ceil_div_def dvd_eq_mod_eq_0)
qed


lemma ceil_div_dvd: "0 < s \<Longrightarrow> s dvd n \<Longrightarrow> ceil_div n s = n div s"
  by (simp add: ceil_div_cases)

lemma ceil_div_ceiling:
  assumes "0 < s"
  shows "ceil_div n s = nat \<lceil>real n / real s\<rceil>"
proof -
  have "\<lceil>real n / real s\<rceil> = \<lceil>real_of_int (int n) / real_of_int (int s)\<rceil>" by simp
  also have "\<dots> = - (- int n div int s)" by (rule ceiling_divide_eq_div)
  also have "\<dots> = (if int n mod int s = 0 then int n div int s else int n div int s + 1)"
    using assms by (simp add: zdiv_zminus1_eq_if)
  also have "\<dots> = int (ceil_div n s)"
    using assms by (simp add: ceil_div_cases zdiv_int dvd_eq_mod_eq_0 flip: zmod_int of_nat_eq_0_iff)
  finally show ?thesis by simp
qed

lemma conv_output_length_Same: "0 < s \<Longrightarrow> conv_output_length n k Same s = Inr (ceil_div n s)"
  by (simp add: conv_output_length_def ceil_div_def)

lemma conv_output_length_Valid_1:
  "0 < s \<Longrightarrow> 0 < n \<Longrightarrow> conv_output_length n (Suc 0) Valid s = Inr (ceil_div n s)"
  by (simp add: conv_output_length_def ceil_div_def)

lemma Conv2D_call_pointwise:
  assumes "shape x = [n, h, w, c]" "0 < h" "0 < w" "0 < s"
  shows "Conv2D_call fw (Conv2D_init f (1, 1) (s, s) Valid nm) x =
           Inr \<lparr>shape = [n, ceil_div h s, ceil_div w s, f],
                val = conv2d_val fw (Conv2D_init f (1, 1) (s, s) Valid nm) x\<rparr>"
  using assms by (simp add: Conv2D_call_def Conv2D_init_def conv_output_length_Valid_1)

lemma Conv2D_call_same:
  assumes "shape x = [n, h, w, c]" "0 < s"
  shows "Conv2D_call fw (Conv2D_init f k (s, s) Same nm) x =
           Inr \<lparr>shape = [n, ceil_div h s, ceil_div w s, f],
                val = conv2d_val fw (Conv2D_init f k (s, s) Same nm) x\<rparr>"
  using assms by (simp add: Conv2D_call_def Conv2D_init_def conv_output_length_Same)

lemma broadcast_shape_same4: "broadcast_shape [n, h, w, c] [n, h, w, c] = Inr [n, h, w, c]"
  by (simp add: broadcast_shape_def)


lemmas call_defs = Bottleneck_main_def Bottleneck_shortcut_def Bottleneck_init_def
    Conv2D_call_def Conv2D_init_def BatchNormalization_call_def BatchNormalization_init_def
    relu_def add_def broadcast_shape_def conv_output_length_Valid_1 conv_output_length_Same

lemma Bottleneck_main_init:
  assumes "shape x = [n, h, w, c]" "0 < h" "0 < w" "0 < s"
  shows "\<exists>y A B C. Bottleneck_main fw (Bottleneck_init st (f1, f2, f3) b ds s) x t =
            Inr (y, (Bottleneck_init st (f1, f2, f3) b ds s)\<lparr>bn2a := A, bn2b := B, bn2c := C\<rparr>) \<and>
          shape y = [n, ceil_div h s, ceil_div w s, f3]"
  using assms by (simp add: call_defs ceil_div_pos)

lemma Bottleneck_shortcut_init_proj:
  assumes "shape x = [n, h, w, c]" "0 < h" "0 < w" "0 < s"
  shows "\<exists>y D. Bottleneck_shortcut fw ((Bottleneck_init st (f1, f2, f3) b True s)\<lparr>bn2a := A, bn2b := B, bn2c := C\<rparr>) x t =
            Inr (y, (Bottleneck_init st (f1, f2, f3) b True s)\<lparr>bn2a := A, bn2b := B, bn2c := C, bn_shortcut := D\<rparr>) \<and>
          shape y = [n, ceil_div h s, ceil_div w s, f3]"
  using assms by (simp add: call_defs ceil_div_pos)

lemma Bottleneck_call_init:
  assumes "shape x = [n, h, w, c]" "0 < h" "0 < w" "0 < s" "ds \<or> (s = 1 \<and> c = f3)"
  shows "\<exists>y u'. Bottleneck_call fw (Bottleneck_init st (f1, f2, f3) b ds s) x t = Inr (y, u') \<and>
          shape y = [n, ceil_div h s, ceil_div w s, f3]"
proof -
  obtain y A B C where m: "Bottleneck_main fw (Bottleneck_init st (f1, f2, f3) b ds s) x (case t of None \<Rightarrow> False | Some t \<Rightarrow> t) =
            Inr (y, (Bottleneck_init st (f1, f2, f3) b ds s)\<lparr>bn2a := A, bn2b := B, bn2c := C\<rparr>)"
     and y: "shape y = [n, ceil_div h s, ceil_div w s, f3]"
    using Bottleneck_main_init[OF assms(1-4)] by blast
  show ?thesis
  proof (cases ds)
    case True
    obtain z D where "Bottleneck_shortcut fw ((Bottleneck_init st (f1, f2, f3) b True s)\<lparr>bn2a := A, bn2b := B, bn2c := C\<rparr>) x (case t of None \<Rightarrow> False | Some t \<Rightarrow> t) =
            Inr (z, (Bottleneck_init st (f1, f2, f3) b True s)\<lparr>bn2a := A, bn2b := B, bn2c := C, bn_shortcut := D\<rparr>)"
       and "shape z = [n, ceil_div h s, ceil_div w s, f3]"
      using Bottleneck_shortcut_init_proj[OF assms(1-4)] by blast
    with m y True show ?thesis
      by (simp add: Bottleneck_call_def add_def relu_def broadcast_shape_def)
  next
    case False
    with assms have "s = 1" "c = f3" by auto
    with m y False assms(1) show ?thesis
      by (simp add: Bottleneck_call_def Bottleneck_shortcut_def Bottleneck_init_def add_def relu_def broadcast_shape_def)
  qed
qed

lemma res2a_init: "res2a (ResNet50_init st) = Bottleneck_init st (64, 64, 256) ''2a'' True 1"
  by (simp add: ResNet50_init_def)

lemma res2b_init: "res2b (ResNet50_init st) = Bottleneck_init st (64, 64, 256) ''2b'' False 1"
  by (simp add: ResNet50_init_def)

lemma res2c_init: "res2c (ResNet50_init st) = Bottleneck_init st (64, 64, 256) ''2c'' False 1"
  by (simp add: ResNet50_init_def)

lemma res3a_init: "res3a (ResNet50_init st) = Bottleneck_init st (128, 128, 512) ''3a'' True 2"
  by (simp add: ResNet50_init_def)

lemma res3b_init: "res3b (ResNet50_init st) = Bottleneck_init st (128, 128, 512) ''3b'' False 1"
  by (simp add: ResNet50_init_def)

lemma res3c_init: "res3c (ResNet50_init st) = Bottleneck_init st (128, 128, 512) ''3c'' False 1"
  by (simp add: ResNet50_init_def)

lemma res3d_init: "res3d (ResNet50_init st) = Bottleneck_init st (128, 128, 512) ''3d'' False 1"
  by (simp add: ResNet50_init_def)

lemma res4a_init: "res4a (ResNet50_init st) = Bottleneck_init st (256, 256, 1024) ''4a'' True 2"
  by (simp add: ResNet50_init_def)

lemma res4b_init: "res4b (ResNet50_init st) = Bottleneck_init st (256, 256, 1024) ''4b'' False 1"
  by (simp add: ResNet50_init_def)

lemma res4c_init: "res4c (ResNet50_init st) = Bottleneck_init st (256, 256, 1024) ''4c'' False 1"
  by (simp add: ResNet50_init_def)

lemma res4d_init: "res4d (ResNet50_init st) = Bottleneck_init st (256, 256, 1024) ''4d'' False 1"
  by (simp add: ResNet50_init_def)

lemma res4e_init: "res4e (ResNet50_init st) = Bottleneck_init st (256, 256, 1024) ''4e'' False 1"
  by (simp add: ResNet50_init_def)

lemma res4f_init: "res4f (ResNet50_init st) = Bottleneck_init st (256, 256, 1024) ''4f'' False 1"
  by (simp add: ResNet50_init_def)

lemma res5a_init: "res5a (ResNet50_init st) = Bottleneck_init st (512, 512, 2048) ''5a'' True 2"
  by (simp add: ResNet50_init_def)

lemma res5b_init: "res5b (ResNet50_init st) = Bottleneck_init st (512, 512, 2048) ''5b'' False 1"
  by (simp add: ResNet50_init_def)

lemma res5c_init: "res5c (ResNet50_init st) = Bottleneck_init st (512, 512, 2048) ''5c'' False 1"
  by (simp add: ResNet50_init_def)

lemma shape_BatchNormalization_call [simp]:
  "shape (fst (BatchNormalization_call fw layer x t)) = shape x"
  by (simp add: BatchNormalization_call_def Let_def)

lemma shape_relu [simp]: "shape (relu fw x) = shape x"
  by (simp add: relu_def)

lemma MaxPooling2D_call_same:
  assumes "shape x = [n, h, w, c]" "0 < s"
  shows "\<exists>p. MaxPooling2D_call fw \<lparr>pool_size = k, pool_strides = (s, s), pool_padding = Same\<rparr> x = Inr p \<and>
          shape p = [n, ceil_div h s, ceil_div w s, c]"
  using assms by (simp add: MaxPooling2D_call_def conv_output_length_Same)

lemma conv1_init: "conv1 (ResNet50_init st) = Conv2D_init 64 (7, 7) (2, 2) Same ''conv1''"
  by (simp add: ResNet50_init_def)

lemma max_pool_init:
  "max_pool (ResNet50_init st) = \<lparr>pool_size = (3, 3), pool_strides = (2, 2), pool_padding = Same\<rparr>"
  by (simp add: ResNet50_init_def)

lemma ResNet50_call_init:
  assumes x: "shape x = [n, h, w, c]" and h: "0 < h" and w: "0 < w"
  shows "\<exists>C2 C3 C4 C5 m' a.
           ResNet50_call fw (ResNet50_init st) x t = Inr ((C2, C3, C4, C5), m') \<and>
           shape C2 = [n, ceil_div h 4, ceil_div w 4, 256] \<and>
           shape C3 = [n, ceil_div h 8, ceil_div w 8, 512] \<and>
           shape C4 = [n, ceil_div h 16, ceil_div w 16, 1024] \<and>
           shape C5 = [n, ceil_div h 32, ceil_div w 32, 2048] \<and>
           Conv2D_call fw (conv1 (ResNet50_init st)) x = Inr a \<and>
           bn_conv1 m' = snd (BatchNormalization_call fw (bn_conv1 (ResNet50_init st)) a None)"
proof -
  define m where "m = ResNet50_init st"
  define tr where "tr = (case t of None \<Rightarrow> True | Some t \<Rightarrow> t)"
  obtain a where a: "Conv2D_call fw (conv1 m) x = Inr a"
    and sa: "shape a = [n, ceil_div h 2, ceil_div w 2, 64]"
    using Conv2D_call_same[OF x, where s=2 and fw=fw and f=64 and k="(7, 7)" and nm="''conv1''"]
    by (auto simp: m_def conv1_init)
  obtain p where p: "MaxPooling2D_call fw (max_pool m)
        (relu fw (fst (BatchNormalization_call fw (bn_conv1 m) a None))) = Inr p"
    and sp: "shape p = [n, ceil_div h 4, ceil_div w 4, 64]"
    using MaxPooling2D_call_same[where fw=fw and s=2 and k="(3, 3)"
        and x="relu fw (fst (BatchNormalization_call fw (bn_conv1 m) a None))"] sa
      ceil_div_ceil_div[of 2 2]
    by (auto simp: m_def max_pool_init)
  have hp: "0 < ceil_div h 4" "0 < ceil_div h 8" "0 < ceil_div h 16" "0 < ceil_div h 32"
    using h by (simp_all add: ceil_div_pos)
  have wp: "0 < ceil_div w 4" "0 < ceil_div w 8" "0 < ceil_div w 16" "0 < ceil_div w 32"
    using w by (simp_all add: ceil_div_pos)
  have "\<exists>y u'. Bottleneck_call fw (Bottleneck_init st (64, 64, 256) ''2a'' True 1) p (Some tr) = Inr (y, u') \<and>
          shape y = [n, ceil_div (ceil_div h 4) 1, ceil_div (ceil_div w 4) 1, 256]"
    by (rule Bottleneck_call_init[OF sp hp(1) wp(1)]) simp_all
  then obtain y2a u2a where r2a: "Bottleneck_call fw (res2a m) p (Some tr) = Inr (y2a, u2a)"
      and s2a: "shape y2a = [n, ceil_div h 4, ceil_div w 4, 256]"
    by (auto simp: m_def res2a_init ceil_div_ceil_div)
  have "\<exists>y u'. Bottleneck_call fw (Bottleneck_init st (64, 64, 256) ''2b'' False 1) y2a (Some tr) = Inr (y, u') \<and>
          shape y = [n, ceil_div (ceil_div h 4) 1, ceil_div (ceil_div w 4) 1, 256]"
    by (rule Bottleneck_call_init[OF s2a hp(1) wp(1)]) simp_all
  then obtain y2b u2b where r2b: "Bottleneck_call fw (res2b m) y2a (Some tr) = Inr (y2b, u2b)"
      and s2b: "shape y2b = [n, ceil_div h 4, ceil_div w 4, 256]"
    by (auto simp: m_def res2b_init ceil_div_ceil_div)
  have "\<exists>y u'. Bottleneck_call fw (Bottleneck_init st (64, 64, 256) ''2c'' False 1) y2b (Some tr) = Inr (y, u') \<and>
          shape y = [n, ceil_div (ceil_div h 4) 1, ceil_div (ceil_div w 4) 1, 256]"
    by (rule Bottleneck_call_init[OF s2b hp(1) wp(1)]) simp_all
  then obtain y2c u2c where r2c: "Bottleneck_call fw (res2c m) y2b (Some tr) = Inr (y2c, u2c)"
      and s2c: "shape y2c = [n, ceil_div h 4, ceil_div w 4, 256]"
    by (auto simp: m_def res2c_init ceil_div_ceil_div)
  have "\<exists>y u'. Bottleneck_call fw (Bottleneck_init st (128, 128, 512) ''3a'' True 2) y2c (Some tr) = Inr (y, u') \<and>
          shape y = [n, ceil_div (ceil_div h 4) 2, ceil_div (ceil_div w 4) 2, 512]"
    by (rule Bottleneck_call_init[OF s2c hp(1) wp(1)]) simp_all
  then obtain y3a u3a where r3a: "Bottleneck_call fw (res3a m) y2c (Some tr) = Inr (y3a, u3a)"
      and s3a: "shape y3a = [n, ceil_div h 8, ceil_div w 8, 512]"
    by (auto simp: m_def res3a_init ceil_div_ceil_div)
  have "\<exists>y u'. Bottleneck_call fw (Bottleneck_init st (128, 128, 512) ''3b'' False 1) y3a (Some tr) = Inr (y, u') \<and>
          shape y = [n, ceil_div (ceil_div h 8) 1, ceil_div (ceil_div w 8) 1, 512]"
    by (rule Bottleneck_call_init[OF s3a hp(2) wp(2)]) simp_all
  then obtain y3b u3b where r3b: "Bottleneck_call fw (res3b m) y3a (Some tr) = Inr (y3b, u3b)"
      and s3b: "shape y3b = [n, ceil_div h 8, ceil_div w 8, 512]"
    by (auto simp: m_def res3b_init ceil_div_ceil_div)
  have "\<exists>y u'. Bottleneck_call fw (Bottleneck_init st (128, 128, 512) ''3c'' False 1) y3b (Some tr) = Inr (y, u') \<and>
          shape y = [n, ceil_div (ceil_div h 8) 1, ceil_div (ceil_div w 8) 1, 512]"
    by (rule Bottleneck_call_init[OF s3b hp(2) wp(2)]) simp_all
  then obtain y3c u3c where r3c: "Bottleneck_call fw (res3c m) y3b (Some tr) = Inr (y3c, u3c)"
      and s3c: "shape y3c = [n, ceil_div h 8, ceil_div w 8, 512]"
    by (auto simp: m_def res3c_init ceil_div_ceil_div)
  have "\<exists>y u'. Bottleneck_call fw (Bottleneck_init st (128, 128, 512) ''3d'' False 1) y3c (Some tr) = Inr (y, u') \<and>
          shape y = [n, ceil_div (ceil_div h 8) 1, ceil_div (ceil_div w 8) 1, 512]"
    by (rule Bottleneck_call_init[OF s3c hp(2) wp(2)]) simp_all
  then obtain y3d u3d where r3d: "Bottleneck_call fw (res3d m) y3c (Some tr) = Inr (y3d, u3d)"
      and s3d: "shape y3d = [n, ceil_div h 8, ceil_div w 8, 512]"
    by (auto simp: m_def res3d_init ceil_div_ceil_div)
  have "\<exists>y u'. Bottleneck_call fw (Bottleneck_init st (256, 256, 1024) ''4a'' True 2) y3d (Some tr) = Inr (y, u') \<and>
          shape y = [n, ceil_div (ceil_div h 8) 2, ceil_div (ceil_div w 8) 2, 1024]"
    by (rule Bottleneck_call_init[OF s3d hp(2) wp(2)]) simp_all
  then obtain y4a u4a where r4a: "Bottleneck_call fw (res4a m) y3d (Some tr) = Inr (y4a, u4a)"
      and s4a: "shape y4a = [n, ceil_div h 16, ceil_div w 16, 1024]"
    by (auto simp: m_def res4a_init ceil_div_ceil_div)
  have "\<exists>y u'. Bottleneck_call fw (Bottleneck_init st (256, 256, 1024) ''4b'' False 1) y4a (Some tr) = Inr (y, u') \<and>
          shape y = [n, ceil_div (ceil_div h 16) 1, ceil_div (ceil_div w 16) 1, 1024]"
    by (rule Bottleneck_call_init[OF s4a hp(3) wp(3)]) simp_all
  then obtain y4b u4b where r4b: "Bottleneck_call fw (res4b m) y4a (Some tr) = Inr (y4b, u4b)"
      and s4b: "shape y4b = [n, ceil_div h 16, ceil_div w 16, 1024]"
    by (auto simp: m_def res4b_init ceil_div_ceil_div)
  have "\<exists>y u'. Bottleneck_call fw (Bottleneck_init st (256, 256, 1024) ''4c'' False 1) y4b (Some tr) = Inr (y, u') \<and>
          shape y = [n, ceil_div (ceil_div h 16) 1, ceil_div (ceil_div w 16) 1, 1024]"
    by (rule Bottleneck_call_init[OF s4b hp(3) wp(3)]) simp_all
  then obtain y4c u4c where r4c: "Bottleneck_call fw (res4c m) y4b (Some tr) = Inr (y4c, u4c)"
      and s4c: "shape y4c = [n, ceil_div h 16, ceil_div w 16, 1024]"
    by (auto simp: m_def res4c_init ceil_div_ceil_div)
  have "\<exists>y u'. Bottleneck_call fw (Bottleneck_init st (256, 256, 1024) ''4d'' False 1) y4c (Some tr) = Inr (y, u') \<and>
          shape y = [n, ceil_div (ceil_div h 16) 1, ceil_div (ceil_div w 16) 1, 1024]"
    by (rule Bottleneck_call_init[OF s4c hp(3) wp(3)]) simp_all
  then obtain y4d u4d where r4d: "Bottleneck_call fw (res4d m) y4c (Some tr) = Inr (y4d, u4d)"
      and s4d: "shape y4d = [n, ceil_div h 16, ceil_div w 16, 1024]"
    by (auto simp: m_def res4d_init ceil_div_ceil_div)
  have "\<exists>y u'. Bottleneck_call fw (Bottleneck_init st (256, 256, 1024) ''4e'' False 1) y4d (Some tr) = Inr (y, u') \<and>
          shape y = [n, ceil_div (ceil_div h 16) 1, ceil_div (ceil_div w 16) 1, 1024]"
    by (rule Bottleneck_call_init[OF s4d hp(3) wp(3)]) simp_all
  then obtain y4e u4e where r4e: "Bottleneck_call fw (res4e m) y4d (Some tr) = Inr (y4e, u4e)"
      and s4e: "shape y4e = [n, ceil_div h 16, ceil_div w 16, 1024]"
    by (auto simp: m_def res4e_init ceil_div_ceil_div)
  have "\<exists>y u'. Bottleneck_call fw (Bottleneck_init st (256, 256, 1024) ''4f'' False 1) y4e (Some tr) = Inr (y, u') \<and>
          shape y = [n, ceil_div (ceil_div h 16) 1, ceil_div (ceil_div w 16) 1, 1024]"
    by (rule Bottleneck_call_init[OF s4e hp(3) wp(3)]) simp_all
  then obtain y4f u4f where r4f: "Bottleneck_call fw (res4f m) y4e (Some tr) = Inr (y4f, u4f)"
      and s4f: "shape y4f = [n, ceil_div h 16, ceil_div w 16, 1024]"
    by (auto simp: m_def res4f_init ceil_div_ceil_div)
  have "\<exists>y u'. Bottleneck_call fw (Bottleneck_init st (512, 512, 2048) ''5a'' True 2) y4f (Some tr) = Inr (y, u') \<and>
          shape y = [n, ceil_div (ceil_div h 16) 2, ceil_div (ceil_div w 16) 2, 2048]"
    by (rule Bottleneck_call_init[OF s4f hp(3) wp(3)]) simp_all
  then obtain y5a u5a where r5a: "Bottleneck_call fw (res5a m) y4f (Some tr) = Inr (y5a, u5a)"
      and s5a: "shape y5a = [n, ceil_div h 32, ceil_div w 32, 2048]"
    by (auto simp: m_def res5a_init ceil_div_ceil_div)
  have "\<exists>y u'. Bottleneck_call fw (Bottleneck_init st (512, 512, 2048) ''5b'' False 1) y5a (Some tr) = Inr (y, u') \<and>
          shape y = [n, ceil_div (ceil_div h 32) 1, ceil_div (ceil_div w 32) 1, 2048]"
    by (rule Bottleneck_call_init[OF s5a hp(4) wp(4)]) simp_all
  then obtain y5b u5b where r5b: "Bottleneck_call fw (res5b m) y5a (Some tr) = Inr (y5b, u5b)"
      and s5b: "shape y5b = [n, ceil_div h 32, ceil_div w 32, 2048]"
    by (auto simp: m_def res5b_init ceil_div_ceil_div)
  have "\<exists>y u'. Bottleneck_call fw (Bottleneck_init st (512, 512, 2048) ''5c'' False 1) y5b (Some tr) = Inr (y, u') \<and>
          shape y = [n, ceil_div (ceil_div h 32) 1, ceil_div (ceil_div w 32) 1, 2048]"
    by (rule Bottleneck_call_init[OF s5b hp(4) wp(4)]) simp_all
  then obtain y5c u5c where r5c: "Bottleneck_call fw (res5c m) y5b (Some tr) = Inr (y5c, u5c)"
      and s5c: "shape y5c = [n, ceil_div h 32, ceil_div w 32, 2048]"
    by (auto simp: m_def res5c_init ceil_div_ceil_div)
  have "ResNet50_call fw m x t = Inr ((y2c, y3d, y4f, y5c),
           m\<lparr>bn_conv1 := snd (BatchNormalization_call fw (bn_conv1 m) a None),
                res2a := u2a, res2b := u2b, res2c := u2c,
                res3a := u3a, res3b := u3b, res3c := u3c, res3d := u3d,
                res4a := u4a, res4b := u4b, res4c := u4c, res4d := u4d,
                res4e := u4e, res4f := u4f,
                res5a := u5a, res5b := u5b, res5c := u5c\<rparr>)"
    using a p r2a r2b r2c r3a r3b r3c r3d r4a r4b r4c r4d r4e r4f r5a r5b r5c
    by (simp add: ResNet50_call_def Let_def case_prod_beta flip: tr_def)
  with a s2c s3d s4f s5c show ?thesis
    unfolding m_def by auto
qed



subsection \<open>Shapes of the backbone's outputs\<close>

text \<open>
  Claim C1. For every input tensor of shape \<open>(N, H, W, 3)\<close> with \<open>H\<close> and \<open>W\<close> positive
  multiples of 32, the forward operation of the backbone, in training mode, in inference
  mode or with the mode omitted, returns four tensors of shapes \<open>(N, H/4, W/4, 256)\<close>,
  \<open>(N, H/8, W/8, 512)\<close>, \<open>(N, H/16, W/16, 1024)\<close> and \<open>(N, H/32, W/32, 2048)\<close>.
\<close>

theorem ResNet50_call_output_shapes:
  assumes "shape x = [n, h, w, 3]" and "0 < h" and "32 dvd h" and "0 < w" and "32 dvd w"
  shows "ResNet50_output_shapes fw (ResNet50_init st) x t =
           Inr ([n, h div 4, w div 4, 256], [n, h div 8, w div 8, 512],
                [n, h div 16, w div 16, 1024], [n, h div 32, w div 32, 2048])"
proof -
  have d: "4 dvd h" "8 dvd h" "16 dvd h" "4 dvd w" "8 dvd w" "16 dvd w"
    using assms(3,5) by (auto elim: dvd_trans[rotated])
  obtain C2 C3 C4 C5 m' where
    "ResNet50_call fw (ResNet50_init st) x t = Inr ((C2, C3, C4, C5), m')"
    "shape C2 = [n, ceil_div h 4, ceil_div w 4, 256]"
    "shape C3 = [n, ceil_div h 8, ceil_div w 8, 512]"
    "shape C4 = [n, ceil_div h 16, ceil_div w 16, 1024]"
    "shape C5 = [n, ceil_div h 32, ceil_div w 32, 2048]"
    using ResNet50_call_init[OF assms(1,2,4)] by blast
  then show ?thesis
    using d assms(3,5) by (simp add: ResNet50_output_shapes_def ceil_div_dvd)
qed

theorem ResNet50_call_output_shapes_demo:
  "ResNet50_output_shapes counting_framework (ResNet50_init zero_stats)
     (tensor_of_shape [2, 1024, 1024, 3]) None =
   Inr ([2, 256, 256, 256], [2, 128, 128, 512], [2, 64, 64, 1024], [2, 32, 32, 2048])"
  using ResNet50_call_output_shapes[of "tensor_of_shape [2, 1024, 1024, 3]" 2 1024 1024
      counting_framework zero_stats None]
  by (simp add: tensor_of_shape_def)

subsection \<open>Shape inference against the forward computation\<close>




subsection \<open>Runs outside the configuration contract\<close>

text \<open>
  A unit without projection adds its input to the main path as it is. When the channel
  counts differ the addition raises, unless one of them is 1 and the addition
  broadcasts: then the output has the channel count of the input.
\<close>

lemmas eval_defs = ResNet50_call_def ResNet50_init_def Bottleneck_init_def Bottleneck_call_def
    Bottleneck_main_def Bottleneck_shortcut_def Conv2D_call_def Conv2D_init_def
    BatchNormalization_call_def BatchNormalization_init_def MaxPooling2D_call_def relu_def add_def
    broadcast_shape_def conv_output_length_def counting_framework_def zero_stats_def
    tensor_of_shape_def Let_def

lemma Bottleneck_call_broadcasts:
  "Bottleneck_output_shape counting_framework (Bottleneck_init zero_stats (2, 2, 1) ''x'' False 1)
     (tensor_of_shape [1, 4, 4, 5]) None = Inr [1, 4, 4, 5]"
  by (simp add: Bottleneck_output_shape_def eval_defs)

lemma Bottleneck_call_mismatch:
  "Bottleneck_output_shape counting_framework (Bottleneck_init zero_stats (64, 64, 256) ''2b'' False 1)
     (tensor_of_shape [1, 4, 4, 64]) None = Inl InvalidArgument"
  by (simp add: Bottleneck_output_shape_def eval_defs)

subsection \<open>The bottleneck unit\<close>

text \<open>
  Claim C4. A valid input of a unit has four axes and positive spatial dimensions, the
  stride is positive, and a unit without projection has stride 1 and is given an input
  whose channel count is already \<open>filters3\<close> (section 4.1 of the specification). On
  every valid input the unit returns a tensor with \<open>filters3\<close> channels; its spatial
  dimensions are the ceiling of the input's divided by the stride when the unit performs
  downsampling, and the input's otherwise.
\<close>

theorem Bottleneck_call_output_shape:
  assumes "shape x = [n, h, w, c]" and "0 < h" and "0 < w" and "0 < s"
    and "ds \<or> (s = 1 \<and> c = f3)"
  shows "Bottleneck_output_shape fw (Bottleneck_init st (f1, f2, f3) b ds s) x t =
           Inr [n,
                if ds then nat \<lceil>real h / real s\<rceil> else h,
                if ds then nat \<lceil>real w / real s\<rceil> else w,
                f3]"
proof -
  obtain y u' where
    "Bottleneck_call fw (Bottleneck_init st (f1, f2, f3) b ds s) x t = Inr (y, u')"
    "shape y = [n, ceil_div h s, ceil_div w s, f3]"
    using Bottleneck_call_init[OF assms] by blast
  moreover have "\<not> ds \<Longrightarrow> ceil_div h s = h \<and> ceil_div w s = w"
    using assms(5) by auto
  ultimately show ?thesis
    using assms(4) by (auto simp: Bottleneck_output_shape_def ceil_div_ceiling)
qed

theorem Bottleneck_call_output_shape_witness:
  "Bottleneck_output_shape counting_framework
     (Bottleneck_init zero_stats (128, 128, 512) ''3a'' True 2)
     (tensor_of_shape [1, 7, 9, 256]) None = Inr [1, 4, 5, 512]"
  using Bottleneck_call_output_shape[of "tensor_of_shape [1, 7, 9, 256]" 1 7 9 256 2 True 512
      counting_framework zero_stats 128 128 "''3a''" None]
  by (simp add: tensor_of_shape_def)

text \<open>
  Claim C5. For every unit and input the tensor the call returns (or the error it
  raises) is that of the composition of the specification: convolution \<open>2a\<close> (1 by 1,
  the configured stride), normalization, relu, convolution \<open>2b\<close> (3 by 3, stride 1,
  same padding), normalization, relu, convolution \<open>2c\<close> (1 by 1, stride 1),
  normalization; the shortcut is the input, or with a projection the 1 by 1 convolution
  of the configured stride followed by normalization; the result is relu of the sum.
\<close>

theorem Bottleneck_call_is_composition:
  "(case Bottleneck_call fw (Bottleneck_init st (f1, f2, f3) b ds s) x t of
      Inl e \<Rightarrow> Inl e
    | Inr (y, u') \<Rightarrow> Inr y) =
   spec_bottleneck fw (Bottleneck_init st (f1, f2, f3) b ds s)
     (case t of None \<Rightarrow> False | Some training \<Rightarrow> training) x \<and>
   conv2a (Bottleneck_init st (f1, f2, f3) b ds s) =
     Conv2D_init f1 (1, 1) (s, s) Valid (''res'' @ b @ ''_branch2a'') \<and>
   conv2b (Bottleneck_init st (f1, f2, f3) b ds s) =
     Conv2D_init f2 (3, 3) (1, 1) Same (''res'' @ b @ ''_branch2b'') \<and>
   conv2c (Bottleneck_init st (f1, f2, f3) b ds s) =
     Conv2D_init f3 (1, 1) (1, 1) Valid (''res'' @ b @ ''_branch2c'') \<and>
   conv_shortcut (Bottleneck_init st (f1, f2, f3) b ds s) =
     (if ds then Some (Conv2D_init f3 (1, 1) (s, s) Valid (''res'' @ b @ ''_branch1'')) else None) \<and>
   (bn_shortcut (Bottleneck_init st (f1, f2, f3) b ds s) = None) = (\<not> ds)"
  by (simp add: Bottleneck_call_def Bottleneck_main_def Bottleneck_shortcut_def
      spec_bottleneck_def spec_main_path_def spec_shortcut_path_def normalization_def
      Bottleneck_init_def bindE_def Let_def case_prod_beta split: sum.splits)

text \<open>
  Claim C6. A unit without projection and with stride 1, given an input whose channel
  count is its third filter count, returns \<open>relu (main_path x + x)\<close>: the shortcut
  is the input itself and the sum has the input's shape.
\<close>

theorem Bottleneck_call_identity_shortcut:
  assumes "shape x = [n, h, w, f3]" and "0 < h" and "0 < w"
  shows "\<exists>m u'.
           Bottleneck_main fw (Bottleneck_init st (f1, f2, f3) b False 1) x training = Inr (m, u') \<and>
           Bottleneck_shortcut fw u' x training = Inr (x, u') \<and>
           add fw m x = Inr \<lparr>shape = shape x, val = add_val fw m x\<rparr> \<and>
           Bottleneck_call fw (Bottleneck_init st (f1, f2, f3) b False 1) x (Some training) =
             Inr (relu fw \<lparr>shape = shape x, val = add_val fw m x\<rparr>, u')"
proof -
  obtain m A B C where
    m: "Bottleneck_main fw (Bottleneck_init st (f1, f2, f3) b False 1) x training =
          Inr (m, (Bottleneck_init st (f1, f2, f3) b False 1)\<lparr>bn2a := A, bn2b := B, bn2c := C\<rparr>)"
    and sm: "shape m = [n, h, w, f3]"
    using Bottleneck_main_init[OF assms, where s=1 and fw=fw and st=st and ?f1.0=f1 and ?f2.0=f2
        and ?f3.0=f3 and b=b and ds=False and t=training]
    by auto
  define u' where "u' = (Bottleneck_init st (f1, f2, f3) b False 1)\<lparr>bn2a := A, bn2b := B, bn2c := C\<rparr>"
  have m': "Bottleneck_main fw (Bottleneck_init st (f1, f2, f3) b False 1) x training = Inr (m, u')"
    using m by (simp add: u'_def)
  have sc: "Bottleneck_shortcut fw u' x training = Inr (x, u')"
    by (simp add: u'_def Bottleneck_shortcut_def Bottleneck_init_def)
  have ad: "add fw m x = Inr \<lparr>shape = shape x, val = add_val fw m x\<rparr>"
    using sm assms(1) by (simp add: add_def broadcast_shape_def)
  have "Bottleneck_call fw (Bottleneck_init st (f1, f2, f3) b False 1) x (Some training) =
          Inr (relu fw \<lparr>shape = shape x, val = add_val fw m x\<rparr>, u')"
    using m' sc ad by (simp add: Bottleneck_call_def)
  with m' sc ad show ?thesis by blast
qed

theorem Bottleneck_call_identity_shortcut_witness:
  "\<exists>m u'.
     Bottleneck_main counting_framework (Bottleneck_init zero_stats (64, 64, 256) ''2b'' False 1)
       (tensor_of_shape [2, 8, 8, 256]) True = Inr (m, u') \<and>
     Bottleneck_shortcut counting_framework u' (tensor_of_shape [2, 8, 8, 256]) True =
       Inr (tensor_of_shape [2, 8, 8, 256], u') \<and>
     add counting_framework m (tensor_of_shape [2, 8, 8, 256]) = Inr (tensor_of_shape [2, 8, 8, 256]) \<and>
     Bottleneck_call counting_framework (Bottleneck_init zero_stats (64, 64, 256) ''2b'' False 1)
       (tensor_of_shape [2, 8, 8, 256]) (Some True) =
       Inr (relu counting_framework (tensor_of_shape [2, 8, 8, 256]), u')"
  using Bottleneck_call_identity_shortcut[of "tensor_of_shape [2, 8, 8, 256]" 2 8 8 256
      counting_framework zero_stats 64 64 "''2b''" True]
  by (simp add: tensor_of_shape_def counting_framework_def)

text \<open>
  Claim C7. In a unit with projection and stride \<open>s > 1\<close> the main path and the
  shortcut path divide the spatial dimensions of the input by \<open>s\<close> in the same way
  (rounding up), so the two tensors that are added have the same shape.
\<close>

theorem Bottleneck_paths_same_shape:
  assumes "shape x = [n, h, w, c]" and "0 < h" and "0 < w" and "1 < s"
  shows "\<exists>m u' p u''.
           Bottleneck_main fw (Bottleneck_init st (f1, f2, f3) b True s) x training = Inr (m, u') \<and>
           Bottleneck_shortcut fw u' x training = Inr (p, u'') \<and>
           shape m = [n, nat \<lceil>real h / real s\<rceil>, nat \<lceil>real w / real s\<rceil>, f3] \<and>
           shape p = shape m"
proof -
  have s: "0 < s" using assms(4) by simp
  obtain m A B C where
    m: "Bottleneck_main fw (Bottleneck_init st (f1, f2, f3) b True s) x training =
          Inr (m, (Bottleneck_init st (f1, f2, f3) b True s)\<lparr>bn2a := A, bn2b := B, bn2c := C\<rparr>)"
    and sm: "shape m = [n, ceil_div h s, ceil_div w s, f3]"
    using Bottleneck_main_init[OF assms(1-3) s] by blast
  obtain p D where
    "Bottleneck_shortcut fw ((Bottleneck_init st (f1, f2, f3) b True s)\<lparr>bn2a := A, bn2b := B, bn2c := C\<rparr>)
        x training =
       Inr (p, (Bottleneck_init st (f1, f2, f3) b True s)\<lparr>bn2a := A, bn2b := B, bn2c := C, bn_shortcut := D\<rparr>)"
    and "shape p = [n, ceil_div h s, ceil_div w s, f3]"
    using Bottleneck_shortcut_init_proj[OF assms(1-3) s] by blast
  with m sm show ?thesis
    using s by (auto simp: ceil_div_ceiling)
qed

theorem Bottleneck_paths_same_shape_witness:
  "\<exists>m u' p u''.
     Bottleneck_main counting_framework (Bottleneck_init zero_stats (128, 128, 512) ''3a'' True 2)
       (tensor_of_shape [1, 7, 9, 256]) False = Inr (m, u') \<and>
     Bottleneck_shortcut counting_framework u' (tensor_of_shape [1, 7, 9, 256]) False = Inr (p, u'') \<and>
     shape m = [1, 4, 5, 512] \<and> shape p = shape m"
  using Bottleneck_paths_same_shape[of "tensor_of_shape [1, 7, 9, 256]" 1 7 9 256 2
      counting_framework zero_stats 128 128 512 "''3a''" False]
  by (simp add: tensor_of_shape_def)

subsection \<open>Names and defaults\<close>

text \<open>
  Claim C8. The stem layers are named \<open>conv1\<close> and \<open>bn_conv1\<close>; a unit with block
  identifier \<open>b\<close> names its layers by the scheme of \<open>spec_layer_names\<close>, and the sixteen
  units of the backbone carry the identifiers \<open>2a\<close> to \<open>2c\<close>, \<open>3a\<close> to \<open>3d\<close>,
  \<open>4a\<close> to \<open>4f\<close> and \<open>5a\<close> to \<open>5c\<close>, the first of each stage with a projection.
\<close>

theorem layer_names_follow_scheme:
  "conv_name (conv1 (ResNet50_init st)) = ''conv1'' \<and>
   bn_name (bn_conv1 (ResNet50_init st)) = ''bn_conv1'' \<and>
   Bottleneck_layer_names (Bottleneck_init st filters_arg b ds s) = spec_layer_names b ds \<and>
   map Bottleneck_layer_names (ResNet50_units (ResNet50_init st)) =
     [spec_layer_names ''2a'' True, spec_layer_names ''2b'' False, spec_layer_names ''2c'' False,
      spec_layer_names ''3a'' True, spec_layer_names ''3b'' False, spec_layer_names ''3c'' False,
      spec_layer_names ''3d'' False,
      spec_layer_names ''4a'' True, spec_layer_names ''4b'' False, spec_layer_names ''4c'' False,
      spec_layer_names ''4d'' False, spec_layer_names ''4e'' False, spec_layer_names ''4f'' False,
      spec_layer_names ''5a'' True, spec_layer_names ''5b'' False, spec_layer_names ''5c'' False] \<and>
   spec_layer_names ''3a'' True =
     [(''res3a_branch2a'', ''bn3a_branch2a''), (''res3a_branch2b'', ''bn3a_branch2b''),
      (''res3a_branch2c'', ''bn3a_branch2c''), (''res3a_branch1'', ''bn3a_branch1'')]"
proof -
  have u: "Bottleneck_layer_names (Bottleneck_init st' fs b' ds' s') = spec_layer_names b' ds'"
    for st' :: "string \<Rightarrow> 's" and fs b' ds' s'
    by (cases fs)
      (simp add: Bottleneck_layer_names_def Bottleneck_init_def spec_layer_names_def
        Conv2D_init_def BatchNormalization_init_def)
  have "conv_name (conv1 (ResNet50_init st)) = ''conv1''"
    by (simp add: ResNet50_init_def Conv2D_init_def)
  moreover have "bn_name (bn_conv1 (ResNet50_init st)) = ''bn_conv1''"
    by (simp add: ResNet50_init_def BatchNormalization_init_def)
  moreover have "map Bottleneck_layer_names (ResNet50_units (ResNet50_init st)) =
     [spec_layer_names ''2a'' True, spec_layer_names ''2b'' False, spec_layer_names ''2c'' False,
      spec_layer_names ''3a'' True, spec_layer_names ''3b'' False, spec_layer_names ''3c'' False,
      spec_layer_names ''3d'' False,
      spec_layer_names ''4a'' True, spec_layer_names ''4b'' False, spec_layer_names ''4c'' False,
      spec_layer_names ''4d'' False, spec_layer_names ''4e'' False, spec_layer_names ''4f'' False,
      spec_layer_names ''5a'' True, spec_layer_names ''5b'' False, spec_layer_names ''5c'' False]"
    by (simp only: ResNet50_units_def list.map u
        res2a_init res2b_init res2c_init res3a_init res3b_init res3c_init res3d_init
        res4a_init res4b_init res4c_init res4d_init res4e_init res4f_init
        res5a_init res5b_init res5c_init)
  moreover have "spec_layer_names ''3a'' True =
     [(''res3a_branch2a'', ''bn3a_branch2a''), (''res3a_branch2b'', ''bn3a_branch2b''),
      (''res3a_branch2c'', ''bn3a_branch2c''), (''res3a_branch1'', ''bn3a_branch1'')]"
    by (simp add: spec_layer_names_def)
  ultimately show ?thesis using u by simp
qed

text \<open>
  Claim C9. With the mode omitted the backbone runs as with \<^verbatim>\<open>training=True\<close>, a
  unit called directly as with \<^verbatim>\<open>training=False\<close>.
\<close>

theorem call_training_defaults:
  "ResNet50_call fw m x None = ResNet50_call fw m x (Some True) \<and>
   Bottleneck_call fw u x None = Bottleneck_call fw u x (Some False)"
  by (simp add: ResNet50_call_def Bottleneck_call_def)

text \<open>
  Claim C10. For every input shape \<open>(N, H, W, C)\<close> the shape inference of the backbone
  floor-divides \<open>H\<close> and \<open>W\<close> by 4, 8, 16 and 32 and sets the channel counts 256, 512,
  1024 and 2048; that of a unit floor-divides both by the stride, with or without
  projection. (A stride of zero raises ZeroDivisionError.)
\<close>

theorem compute_output_shape_floor:
  assumes "0 < s"
  shows "ResNet50_compute_output_shape (ResNet50_init st) [n, h, w, c] =
           Inr ([n, h div 4, w div 4, 256], [n, h div 8, w div 8, 512],
                [n, h div 16, w div 16, 1024], [n, h div 32, w div 32, 2048]) \<and>
         Bottleneck_compute_output_shape (Bottleneck_init st (f1, f2, f3) b ds s) [n, h, w, c] =
           Inr [n, h div s, w div s, f3]"
  using assms
  by (simp add: ResNet50_compute_output_shape_def ResNet50_init_def
      Bottleneck_compute_output_shape_def Bottleneck_init_def Let_def)

theorem compute_output_shape_floor_witness:
  "ResNet50_compute_output_shape (ResNet50_init zero_stats) [2, 1000, 601, 5] =
     Inr ([2, 250, 150, 256], [2, 125, 75, 512], [2, 62, 37, 1024], [2, 31, 18, 2048]) \<and>
   Bottleneck_compute_output_shape (Bottleneck_init zero_stats (64, 64, 256) ''2b'' False 3)
     [2, 1000, 601, 5] = Inr [2, 333, 200, 256]"
  using compute_output_shape_floor[of 3 zero_stats 2 1000 601 5 64 64 256 "''2b''" False]
  by simp

subsection \<open>Running statistics\<close>

text \<open>
  What a call of a unit does to the running statistics of its layers: in inference mode
  nothing, in training mode each layer of the main path and of the projection is
  updated from the tensor it was given.
\<close>

lemma bindE_eq_Inr: "bindE m f = Inr r \<longleftrightarrow> (\<exists>a. m = Inr a \<and> f a = Inr r)"
  by (cases m) simp_all

lemma snd_BatchNormalization_call_Some:
  "snd (BatchNormalization_call fw layer x (Some t)) =
     (if t then layer\<lparr>moving := batchnorm_moving fw layer x\<rparr> else layer)"
  by (simp add: BatchNormalization_call_def)

lemma Bottleneck_main_Inr:
  assumes "Bottleneck_main fw u x t = Inr (m, u1)"
  shows "\<exists>a b c.
           Conv2D_call fw (conv2a u) x = Inr a \<and>
           Conv2D_call fw (conv2b u) (relu fw (normalization fw (bn2a u) t a)) = Inr b \<and>
           Conv2D_call fw (conv2c u) (relu fw (normalization fw (bn2b u) t b)) = Inr c \<and>
           u1 = u\<lparr>bn2a := snd (BatchNormalization_call fw (bn2a u) a (Some t)),
                  bn2b := snd (BatchNormalization_call fw (bn2b u) b (Some t)),
                  bn2c := snd (BatchNormalization_call fw (bn2c u) c (Some t))\<rparr>"
  using assms
  by (auto simp: Bottleneck_main_def bindE_eq_Inr case_prod_beta Let_def normalization_def)

lemma Bottleneck_shortcut_Inr:
  assumes "Bottleneck_shortcut fw u1 x t = Inr (p, u2)"
  shows "(\<not> downsampling u1 \<and> p = x \<and> u2 = u1) \<or>
         (\<exists>conv bn q. downsampling u1 \<and> conv_shortcut u1 = Some conv \<and> bn_shortcut u1 = Some bn \<and>
            Conv2D_call fw conv x = Inr q \<and>
            u2 = u1\<lparr>bn_shortcut := Some (snd (BatchNormalization_call fw bn q (Some t)))\<rparr>)"
  using assms
  by (auto simp: Bottleneck_shortcut_def bindE_eq_Inr case_prod_beta split: if_splits option.splits)

lemma Bottleneck_call_Inr:
  assumes "Bottleneck_call fw u x (Some t) = Inr (y, u')"
  shows "\<exists>m u1 p. Bottleneck_main fw u x t = Inr (m, u1) \<and> Bottleneck_shortcut fw u1 x t = Inr (p, u')"
  using assms
  by (auto simp: Bottleneck_call_def bindE_eq_Inr case_prod_beta Let_def)

lemma Bottleneck_call_inference_frame:
  assumes "Bottleneck_call fw u x (Some False) = Inr (y, u')"
  shows "u' = u"
proof -
  obtain m u1 p where m: "Bottleneck_main fw u x False = Inr (m, u1)"
    and p: "Bottleneck_shortcut fw u1 x False = Inr (p, u')"
    using Bottleneck_call_Inr[OF assms] by blast
  have u1: "u1 = u"
    using Bottleneck_main_Inr[OF m] by (auto simp: snd_BatchNormalization_call_Some)
  show ?thesis
    using Bottleneck_shortcut_Inr[OF p] u1
    by (auto simp: snd_BatchNormalization_call_Some)
qed

lemma Bottleneck_call_training_updates:
  assumes "Bottleneck_call fw u x (Some True) = Inr (y, u')"
  shows "\<exists>a b c.
           Conv2D_call fw (conv2a u) x = Inr a \<and>
           Conv2D_call fw (conv2b u) (relu fw (normalization fw (bn2a u) True a)) = Inr b \<and>
           Conv2D_call fw (conv2c u) (relu fw (normalization fw (bn2b u) True b)) = Inr c \<and>
           moving (bn2a u') = batchnorm_moving fw (bn2a u) a \<and>
           moving (bn2b u') = batchnorm_moving fw (bn2b u) b \<and>
           moving (bn2c u') = batchnorm_moving fw (bn2c u) c \<and>
           (downsampling u \<longrightarrow>
              (\<exists>conv bn q. conv_shortcut u = Some conv \<and> bn_shortcut u = Some bn \<and>
                 Conv2D_call fw conv x = Inr q \<and>
                 map_option moving (bn_shortcut u') = Some (batchnorm_moving fw bn q)))"
proof -
  obtain m u1 p where m: "Bottleneck_main fw u x True = Inr (m, u1)"
    and p: "Bottleneck_shortcut fw u1 x True = Inr (p, u')"
    using Bottleneck_call_Inr[OF assms] by blast
  obtain a b c where
    abc: "Conv2D_call fw (conv2a u) x = Inr a"
      "Conv2D_call fw (conv2b u) (relu fw (normalization fw (bn2a u) True a)) = Inr b"
      "Conv2D_call fw (conv2c u) (relu fw (normalization fw (bn2b u) True b)) = Inr c"
    and u1: "u1 = u\<lparr>bn2a := snd (BatchNormalization_call fw (bn2a u) a (Some True)),
                  bn2b := snd (BatchNormalization_call fw (bn2b u) b (Some True)),
                  bn2c := snd (BatchNormalization_call fw (bn2c u) c (Some True))\<rparr>"
    using Bottleneck_main_Inr[OF m] by blast
  show ?thesis
    using Bottleneck_shortcut_Inr[OF p] abc u1
    by (auto simp: snd_BatchNormalization_call_Some)
qed

lemma Bottleneck_call_inference_frame_snd:
  "Bottleneck_call fw u x (Some False) = Inr r \<Longrightarrow> snd r = u"
  by (cases r) (simp add: Bottleneck_call_inference_frame)

lemma ResNet50_call_inference_frame:
  assumes "ResNet50_call fw m x (Some False) = Inr (ys, m')" and "\<not> learning_phase fw"
  shows "m' = m"
  using assms
  by (auto simp: ResNet50_call_def bindE_eq_Inr case_prod_beta Let_def
      BatchNormalization_call_def dest!: Bottleneck_call_inference_frame_snd)

text \<open>
  The stem's layer after a call of the backbone, whatever the mode argument: updated
  when the learning phase is on, untouched when it is off.
\<close>

lemma ResNet50_call_stem_follows_learning_phase:
  assumes "shape x = [n, h, w, c]" and "0 < h" and "0 < w"
  shows "\<exists>ys m' a. ResNet50_call fw (ResNet50_init st) x t = Inr (ys, m') \<and>
           Conv2D_call fw (conv1 (ResNet50_init st)) x = Inr a \<and>
           bn_conv1 m' =
             (if learning_phase fw
              then (bn_conv1 (ResNet50_init st))
                     \<lparr>moving := batchnorm_moving fw (bn_conv1 (ResNet50_init st)) a\<rparr>
              else bn_conv1 (ResNet50_init st))"
proof -
  obtain C2 C3 C4 C5 m' a where
    "ResNet50_call fw (ResNet50_init st) x t = Inr ((C2, C3, C4, C5), m')"
    "Conv2D_call fw (conv1 (ResNet50_init st)) x = Inr a"
    "bn_conv1 m' = snd (BatchNormalization_call fw (bn_conv1 (ResNet50_init st)) a None)"
    using ResNet50_call_init[OF assms] by blast
  then show ?thesis
    by (simp add: BatchNormalization_call_def)
qed

text \<open>
  On the backbone, with tensors without contents and statistics that count updates:
  after a call in training mode every layer of the sixteen units has the count 1 and
  the stem's layer the count 0; after a call in inference mode all have the count 0.
\<close>

lemma ResNet50_call_training_counts:
  "ResNet50_moving_after counting_framework (ResNet50_init zero_stats)
     (tensor_of_shape [2, 64, 64, 3]) (Some True) = Inr (0, {1})"
  by (simp add: ResNet50_moving_after_def ResNet50_units_def Bottleneck_moving_def eval_defs)

lemma ResNet50_call_inference_counts:
  "ResNet50_moving_after counting_framework (ResNet50_init zero_stats)
     (tensor_of_shape [2, 64, 64, 3]) (Some False) = Inr (0, {0})"
  by (simp add: ResNet50_moving_after_def ResNet50_units_def Bottleneck_moving_def eval_defs)

text \<open>
  Claim C2 asks that a call in training mode updates the running statistics of every
  normalization layer. The stem's layer is called without the mode (line 118 of the
  source), so it follows the learning phase and not the argument: with the learning
  phase off, a call with \<^verbatim>\<open>training=True\<close> on any input of four axes and positive
  spatial dimensions returns and leaves the stem's statistics as they were.
\<close>

theorem ResNet50_call_stem_statistics:
  assumes "shape x = [n, h, w, c]" and "0 < h" and "0 < w" and "\<not> learning_phase fw"
  shows "\<exists>ys m'. ResNet50_call fw (ResNet50_init st) x (Some True) = Inr (ys, m') \<and>
           bn_conv1 m' = bn_conv1 (ResNet50_init st) \<and>
           moving (bn_conv1 m') = st ''bn_conv1''"
proof -
  obtain C2 C3 C4 C5 m' a where
    r: "ResNet50_call fw (ResNet50_init st) x (Some True) = Inr ((C2, C3, C4, C5), m')"
    and b: "bn_conv1 m' = snd (BatchNormalization_call fw (bn_conv1 (ResNet50_init st)) a None)"
    using ResNet50_call_init[OF assms(1-3)] by blast
  have "bn_conv1 m' = bn_conv1 (ResNet50_init st)"
    using b assms(4) by (simp add: BatchNormalization_call_def)
  moreover have "moving (bn_conv1 (ResNet50_init st)) = st ''bn_conv1''"
    by (simp add: ResNet50_init_def BatchNormalization_init_def)
  ultimately show ?thesis using r by simp
qed

theorem ResNet50_call_stem_statistics_witness:
  "\<exists>ys m'. ResNet50_call counting_framework (ResNet50_init zero_stats)
       (tensor_of_shape [2, 64, 64, 3]) (Some True) = Inr (ys, m') \<and>
     moving (bn_conv1 m') = 0"
  using ResNet50_call_stem_statistics[of "tensor_of_shape [2, 64, 64, 3]" 2 64 64 3
      counting_framework zero_stats]
  by (auto simp: tensor_of_shape_def counting_framework_def zero_stats_def)

end
